theory Spec2Isabelle
  imports Main
begin

section \<open>The global logger of package log\<close>

text \<open>
  A shallow embedding of the package \<open>log\<close> of KennyMacCormik/common: the package
  variables become one record that every function takes and returns, a panic, a fatal
  runtime error and a blocked \<open>Lock\<close> become values of \<open>error\<close>, and the parts of the
  Go standard library the package calls (\<open>log/slog\<close>, \<open>reflect\<close>, \<open>sync.Mutex\<close>) are
  modelled as far as the package uses them. The model is sequential: one thread of
  control runs one function at a time.
\<close>

subsection \<open>Errors\<close>

datatype error =
    Deadlock               \<comment> \<open>\<open>Lock\<close> on a mutex the only thread already holds: blocks forever\<close>
  | UnlockOfUnlockedMutex  \<comment> \<open>fatal error: sync: unlock of unlocked mutex\<close>
  | ReflectPanic           \<comment> \<open>\<open>reflect.Value.IsNil\<close> on a kind that has no nil\<close>
  | IndexOutOfRange        \<comment> \<open>\<open>args[0]\<close> on an empty slice\<close>

definition and_then :: "error + 'a \<Rightarrow> ('a \<Rightarrow> error + 'b) \<Rightarrow> error + 'b" where
  "and_then r f = (case r of Inl e \<Rightarrow> Inl e | Inr x \<Rightarrow> f x)"

definition on_ok :: "('a \<Rightarrow> 'b) \<Rightarrow> error + 'a \<Rightarrow> error + 'b" where
  "on_ok f r = (case r of Inl e \<Rightarrow> Inl e | Inr x \<Rightarrow> Inr (f x))"

subsection \<open>slog levels and levelers\<close>

text \<open>
  Modelled from the spec: \<open>slog.Level\<close>, its four constants, \<open>slog.Leveler\<close> and
  \<open>slog.LevelVar\<close> belong to the Go standard library, not to this repository. A
  \<open>Level\<close> is an integer (\<open>type Level int\<close>) and the order of levels is the order of
  integers. A \<open>Leveler\<close> is either a \<open>Level\<close> value, which is its own level for ever, or
  a pointer to a \<open>LevelVar\<close>, whose level is read from the variable at each call.
  \<open>LevelVar\<close> objects live in a store indexed by address.
\<close>

type_synonym Level = int

definition LevelDebug :: Level where "LevelDebug = - 4"
definition LevelInfo :: Level where "LevelInfo = 0"
definition LevelWarn :: Level where "LevelWarn = 4"
definition LevelError :: Level where "LevelError = 8"

type_synonym addr = nat

datatype Leveler = LevelValue Level | LevelVarAt addr

fun Leveler_Level :: "(addr \<Rightarrow> Level) \<Rightarrow> Leveler \<Rightarrow> Level" where
  "Leveler_Level vars (LevelValue l) = l"
| "Leveler_Level vars (LevelVarAt a) = vars a"

subsection \<open>Writers and reflection\<close>

text \<open>
  Modelled from the spec: \<open>reflect.Kind\<close>, \<open>reflect.ValueOf\<close> and
  \<open>reflect.Value.IsNil\<close> belong to the Go standard library, not to this repository.
  An \<open>io.Writer\<close> is an interface value: either the nil interface, or a dynamic value
  of which the model keeps the kind of its type, whether the value itself is nil, and
  an identity that tells two sinks apart.
\<close>

datatype Kind =
    Invalid | Bool | Int | Int8 | Int16 | Int32 | Int64
  | Uint | Uint8 | Uint16 | Uint32 | Uint64 | Uintptr
  | Float32 | Float64 | Complex64 | Complex128
  | Array | Chan | Func | Interface | Map | Ptr | Slice
  | String | Struct | UnsafePointer

datatype Writer = NilWriter | Writer Kind bool nat

fun Value_Kind :: "Writer \<Rightarrow> Kind" where
  "Value_Kind NilWriter = Invalid"
| "Value_Kind (Writer k isnil ident) = k"

fun Value_IsNil :: "Writer \<Rightarrow> error + bool" where
  "Value_IsNil NilWriter = Inl ReflectPanic"
| "Value_IsNil (Writer k isnil ident) =
     (if k = Chan \<or> k = Func \<or> k = Map \<or> k = Ptr \<or> k = UnsafePointer
         \<or> k = Interface \<or> k = Slice
      then Inr isnil else Inl ReflectPanic)"

text \<open>\<open>os.Stdout\<close>: a non-nil \<open>*os.File\<close>.\<close>

definition os_Stdout :: Writer where
  "os_Stdout = Writer Ptr False 1"

subsection \<open>Arguments, attributes and records\<close>

text \<open>
  Modelled from the spec: \<open>slog.Attr\<close>, \<open>slog.Record\<close>, \<open>argsToAttr\<close> and
  \<open>Record.Add\<close> belong to the Go standard library, not to this repository; the package
  comment of the source (lines 9 to 13) states their contract. An argument of type
  \<open>any\<close> is a string, a \<open>slog.Attr\<close> (a key and a value), or a value of another type.
\<close>

datatype any = StringArg string | AttrArg string any | OtherArg nat

type_synonym Attr = "string \<times> any"

definition badKey :: string where
  "badKey = ''!BADKEY''"

fun argsToAttr :: "any list \<Rightarrow> error + (Attr \<times> any list)" where
  "argsToAttr [] = Inl IndexOutOfRange"
| "argsToAttr (StringArg x # rest) =
     (if length (StringArg x # rest) = 1 then Inr ((badKey, StringArg x), [])
      else Inr ((x, hd rest), tl rest))"
| "argsToAttr (AttrArg k v # rest) = Inr ((k, v), rest)"
| "argsToAttr (OtherArg x # rest) = Inr ((badKey, OtherArg x), rest)"

function Record_Add :: "Attr list \<Rightarrow> any list \<Rightarrow> error + Attr list" where
  "Record_Add attrs args =
     (if length args > 0
      then (case argsToAttr args of
              Inl e \<Rightarrow> Inl e
            | Inr (a, args') \<Rightarrow> Record_Add (attrs @ [a]) args')
      else Inr attrs)"
  by pat_completeness auto
termination
proof (relation "measure (\<lambda>(attrs, args). length args)")
  show "wf (measure (\<lambda>(attrs, args). length args))" by simp
next
  fix attrs :: "Attr list" and args x a args'
  assume "0 < length args" and "argsToAttr args = Inr x" and "(a, args') = x"
  then have "length args' < length args"
    by (cases args rule: argsToAttr.cases) (auto split: if_splits)
  then show "((attrs @ [a], args'), (attrs, args)) \<in> measure (\<lambda>(attrs, args). length args)"
    by simp
qed

declare Record_Add.simps [simp del]

type_synonym Time = nat

record Record =
  Time :: Time
  Message :: string
  Level :: Level
  Attrs :: "Attr list"

subsection \<open>Handlers, loggers and the package state\<close>

text \<open>
  Modelled from the spec: \<open>slog.NewJSONHandler\<close>, \<open>slog.NewTextHandler\<close>,
  \<open>slog.New\<close> and the methods of \<open>slog.Logger\<close> belong to the Go standard library,
  not to this repository. A handler keeps the writer and the leveler it was built with. The
  renderer is outside the package: what a handler writes is kept as the record it
  rendered, tagged with the encoding (one JSON object per record, or one
  \<open>key=value\<close> line per record).
\<close>

datatype Handler = JSONHandler Writer Leveler | TextHandler Writer Leveler

datatype Logger = Logger Handler

definition slog_New :: "Handler \<Rightarrow> Logger" where
  "slog_New h = Logger h"

fun Logger_Handler :: "Logger \<Rightarrow> Handler" where
  "Logger_Handler (Logger h) = h"

fun Handler_w :: "Handler \<Rightarrow> Writer" where
  "Handler_w (JSONHandler w lv) = w"
| "Handler_w (TextHandler w lv) = w"

fun Handler_opts_Level :: "Handler \<Rightarrow> Leveler" where
  "Handler_opts_Level (JSONHandler w lv) = lv"
| "Handler_opts_Level (TextHandler w lv) = lv"

datatype Line = JSONLine Record | TextLine Record

fun Handler_render :: "Handler \<Rightarrow> Record \<Rightarrow> Line" where
  "Handler_render (JSONHandler w lv) r = JSONLine r"
| "Handler_render (TextHandler w lv) r = TextLine r"

record state =
  levelVars :: "addr \<Rightarrow> Level"       \<comment> \<open>the store of \<open>slog.LevelVar\<close> objects\<close>
  logLevel :: addr                    \<comment> \<open>\<open>logLevel *slog.LevelVar\<close>\<close>
  "output" :: Writer                  \<comment> \<open>\<open>output io.Writer\<close>\<close>
  handler :: int                      \<comment> \<open>\<open>handler atomic.Int64\<close>: 0 = JSON, 1 = Text\<close>
  mtx :: bool                         \<comment> \<open>\<open>mtx sync.Mutex\<close>: True when locked\<close>
  globalLogger :: Logger              \<comment> \<open>\<open>globalLogger *slog.Logger\<close>\<close>
  written :: "(Writer \<times> Line) list"   \<comment> \<open>every write made so far, oldest first\<close>

definition LevelVar_Level :: "addr \<Rightarrow> state \<Rightarrow> Level" where
  "LevelVar_Level a st = levelVars st a"

definition LevelVar_Set :: "addr \<Rightarrow> Level \<Rightarrow> state \<Rightarrow> state" where
  "LevelVar_Set a l st = st\<lparr>levelVars := (levelVars st)(a := l)\<rparr>"

definition Handler_Enabled :: "Handler \<Rightarrow> Level \<Rightarrow> state \<Rightarrow> bool" where
  "Handler_Enabled h l st = (l \<ge> Leveler_Level (levelVars st) (Handler_opts_Level h))"

definition Handler_Handle :: "Handler \<Rightarrow> Record \<Rightarrow> state \<Rightarrow> state" where
  "Handler_Handle h r st = st\<lparr>written := written st @ [(Handler_w h, Handler_render h r)]\<rparr>"

definition Logger_Enabled :: "Logger \<Rightarrow> Level \<Rightarrow> state \<Rightarrow> bool" where
  "Logger_Enabled l lvl st = Handler_Enabled (Logger_Handler l) lvl st"

definition Logger_log :: "Logger \<Rightarrow> Time \<Rightarrow> Level \<Rightarrow> string \<Rightarrow> any list \<Rightarrow> state \<Rightarrow> error + state" where
  "Logger_log l now lvl msg args st =
     (if \<not> Logger_Enabled l lvl st then Inr st
      else and_then (Record_Add [] args)
             (\<lambda>attrs. Inr (Handler_Handle (Logger_Handler l)
                             \<lparr>Time = now, Message = msg, Level = lvl, Attrs = attrs\<rparr> st)))"

definition Logger_Debug :: "Logger \<Rightarrow> Time \<Rightarrow> string \<Rightarrow> any list \<Rightarrow> state \<Rightarrow> error + state" where
  "Logger_Debug l now msg args st = Logger_log l now LevelDebug msg args st"

definition Logger_Info :: "Logger \<Rightarrow> Time \<Rightarrow> string \<Rightarrow> any list \<Rightarrow> state \<Rightarrow> error + state" where
  "Logger_Info l now msg args st = Logger_log l now LevelInfo msg args st"

definition Logger_Warn :: "Logger \<Rightarrow> Time \<Rightarrow> string \<Rightarrow> any list \<Rightarrow> state \<Rightarrow> error + state" where
  "Logger_Warn l now msg args st = Logger_log l now LevelWarn msg args st"

definition Logger_Error :: "Logger \<Rightarrow> Time \<Rightarrow> string \<Rightarrow> any list \<Rightarrow> state \<Rightarrow> error + state" where
  "Logger_Error l now msg args st = Logger_log l now LevelError msg args st"

subsection \<open>The mutex\<close>

text \<open>
  Modelled from the spec: \<open>sync.Mutex\<close> belongs to the Go standard library, not to
  this repository. With one thread of control, \<open>Lock\<close> on a locked mutex never returns,
  \<open>TryLock\<close> reports whether it took the mutex, and \<open>Unlock\<close> of an unlocked mutex
  is a fatal error.
\<close>

definition mtx_Lock :: "state \<Rightarrow> error + state" where
  "mtx_Lock st = (if mtx st then Inl Deadlock else Inr (st\<lparr>mtx := True\<rparr>))"

definition mtx_TryLock :: "state \<Rightarrow> bool \<times> state" where
  "mtx_TryLock st = (if mtx st then (False, st) else (True, st\<lparr>mtx := True\<rparr>))"

definition mtx_Unlock :: "state \<Rightarrow> error + state" where
  "mtx_Unlock st = (if mtx st then Inr (st\<lparr>mtx := False\<rparr>) else Inl UnlockOfUnlockedMutex)"

subsection \<open>The package: configuration\<close>

type_synonym LoggingOptions = "state \<Rightarrow> error + state"

definition isNotNilOrNilPointer :: "Writer \<Rightarrow> error + bool" where
  "isNotNilOrNilPointer out =
     (if out = NilWriter then Inr False
      else let val = out; kind = Value_Kind val in
        if kind = Ptr \<or> kind = Interface
        then and_then (Value_IsNil val) (\<lambda>isnil. if isnil then Inr False else Inr True)
        else Inr True)"

text \<open>
  \<open>storeLogger\<close> takes the level as a \<open>slog.Level\<close> value and hands that value to
  \<open>HandlerOptions\<close>; its text branch reads the package variable \<open>output\<close>, not its
  parameter. The deferred \<open>Unlock\<close> runs only when \<open>TryLock\<close> took the mutex.
\<close>

definition storeLogger :: "Writer \<Rightarrow> Level \<Rightarrow> state \<Rightarrow> error + state" where
  "storeLogger out lvl st =
     (let (locked, st1) = mtx_TryLock st;
          st2 = (if handler st1 = 0
                 then st1\<lparr>globalLogger := slog_New (JSONHandler out (LevelValue lvl))\<rparr>
                 else st1\<lparr>globalLogger := slog_New (TextHandler (output st1) (LevelValue lvl))\<rparr>)
      in if locked then mtx_Unlock st2 else Inr st2)"

definition WithJSONFormat :: LoggingOptions where
  "WithJSONFormat st =
     (let st1 = st\<lparr>handler := 0\<rparr>
      in storeLogger (output st1) (LevelVar_Level (logLevel st1) st1) st1)"

definition WithTextFormat :: LoggingOptions where
  "WithTextFormat st =
     (let st1 = st\<lparr>handler := 1\<rparr>
      in storeLogger (output st1) (LevelVar_Level (logLevel st1) st1) st1)"

definition WithOutput :: "Writer \<Rightarrow> LoggingOptions" where
  "WithOutput out st =
     and_then (mtx_Lock st) (\<lambda>st1.
     and_then (isNotNilOrNilPointer out) (\<lambda>ok.
       let st2 = (if ok then st1\<lparr>output := out\<rparr> else st1\<lparr>output := os_Stdout\<rparr>)
       in and_then (storeLogger (output st2) (LevelVar_Level (logLevel st2) st2) st2) mtx_Unlock))"

definition logLevelMap :: "string \<rightharpoonup> Level" where
  "logLevelMap = [''debug'' \<mapsto> LevelDebug, ''info'' \<mapsto> LevelInfo,
                  ''warn'' \<mapsto> LevelWarn, ''error'' \<mapsto> LevelError]"

text \<open>Indexing a Go map with a key it does not hold gives the zero value.\<close>

definition map_index :: "(string \<rightharpoonup> Level) \<Rightarrow> string \<Rightarrow> Level" where
  "map_index m k = (case m k of None \<Rightarrow> 0 | Some v \<Rightarrow> v)"

definition WithLogLevel :: "string \<Rightarrow> LoggingOptions" where
  "WithLogLevel name st =
     (let name1 = (if name \<noteq> ''debug'' \<and> name \<noteq> ''info'' \<and> name \<noteq> ''warn'' \<and> name \<noteq> ''error''
                   then ''warn'' else name)
      in Inr (LevelVar_Set (logLevel st) (map_index logLevelMap name1) st))"

fun Configure :: "LoggingOptions list \<Rightarrow> state \<Rightarrow> error + state" where
  "Configure [] st = Inr st"
| "Configure (option # options) st = and_then (option st) (Configure options)"

subsection \<open>The package: emit functions and initialisation\<close>

text \<open>
  The emit functions read \<open>globalLogger\<close> and call the method of the same name; the
  reading of the clock that \<open>slog\<close> takes for the record is the first argument.
\<close>

definition Debug :: "Time \<Rightarrow> string \<Rightarrow> any list \<Rightarrow> state \<Rightarrow> error + state" where
  "Debug now msg args st = Logger_Debug (globalLogger st) now msg args st"

definition Info :: "Time \<Rightarrow> string \<Rightarrow> any list \<Rightarrow> state \<Rightarrow> error + state" where
  "Info now msg args st = Logger_Info (globalLogger st) now msg args st"

definition Warn :: "Time \<Rightarrow> string \<Rightarrow> any list \<Rightarrow> state \<Rightarrow> error + state" where
  "Warn now msg args st = Logger_Warn (globalLogger st) now msg args st"

definition Error :: "Time \<Rightarrow> string \<Rightarrow> any list \<Rightarrow> state \<Rightarrow> error + state" where
  "Error now msg args st = Logger_Error (globalLogger st) now msg args st"

text \<open>
  \<open>init\<close> runs once, before any other function of the package: it allocates the
  \<open>LevelVar\<close> (at address 0, holding the zero level), sets the package variables, builds
  the first logger on the \<open>LevelVar\<close> itself, and logs one record at level Debug.
  A record has a value in every field, so \<open>st1\<close> names a logger before the assignment
  to \<open>globalLogger\<close>; \<open>st3\<close> is the state after that assignment.
\<close>

definition init :: "Time \<Rightarrow> error + state" where
  "init now =
     (let a = 0;
          st1 = \<lparr>levelVars = (\<lambda>_. 0), logLevel = a, output = os_Stdout, handler = 0,
                 mtx = False,
                 globalLogger = slog_New (JSONHandler os_Stdout (LevelVarAt a)),
                 written = []\<rparr>;
          st2 = LevelVar_Set (logLevel st1) LevelWarn st1;
          st3 = st2\<lparr>globalLogger :=
                       slog_New (JSONHandler (output st2) (LevelVarAt (logLevel st2)))\<rparr>
      in Logger_Debug (globalLogger st3) now ''logger init success''
           [StringArg ''log level'', StringArg ''warn'', StringArg ''output'',
            StringArg ''os.Stdout'', StringArg ''format'', StringArg ''json''] st3)"


subsection \<open>Specification-level notions\<close>

text \<open>The attribute grammar as the specification words it, one clause per case.\<close>

fun attr_grammar :: "any list \<Rightarrow> Attr list" where
  "attr_grammar [] = []"
| "attr_grammar (AttrArg k v # rest) = (k, v) # attr_grammar rest"
| "attr_grammar [StringArg x] = [(badKey, StringArg x)]"
| "attr_grammar (StringArg k # v # rest) = (k, v) # attr_grammar rest"
| "attr_grammar (OtherArg x # rest) = (badKey, OtherArg x) # attr_grammar rest"


text \<open>The severity gate: the level held by the \<open>LevelVar\<close> that \<open>logLevel\<close> points to.\<close>

definition gate :: "state \<Rightarrow> Level" where
  "gate st = LevelVar_Level (logLevel st) st"

text \<open>What has been written to one sink, oldest first.\<close>

definition written_to :: "Writer \<Rightarrow> state \<Rightarrow> Line list" where
  "written_to w st = map snd (filter (\<lambda>e. fst e = w) (written st))"

text \<open>The state the process starts in: what \<open>init\<close> returns (lemma \<open>init_default_state\<close>).\<close>

definition default_state :: state where
  "default_state =
     \<lparr>levelVars = (\<lambda>_. 0)(0 := LevelWarn), logLevel = 0, output = os_Stdout, handler = 0,
      mtx = False, globalLogger = slog_New (JSONHandler os_Stdout (LevelVarAt 0)),
      written = []\<rparr>"


section \<open>Properties\<close>

subsection \<open>What each function computes\<close>

lemma Record_Add_grammar: "Record_Add attrs args = Inr (attrs @ attr_grammar args)"
proof (induction args arbitrary: attrs rule: attr_grammar.induct)
  case 1
  show ?case by (simp add: Record_Add.simps)
next
  case (2 k v rest)
  show ?case by (subst Record_Add.simps) (simp add: 2)
next
  case (3 x)
  show ?case by (subst Record_Add.simps, simp, subst Record_Add.simps, simp)
next
  case (4 k v rest)
  show ?case by (subst Record_Add.simps) (simp add: 4)
next
  case (5 x rest)
  show ?case by (subst Record_Add.simps) (simp add: 5)
qed

lemma storeLogger_eq:
  "storeLogger out lvl st =
     Inr (st\<lparr>globalLogger := (if handler st = 0 then slog_New (JSONHandler out (LevelValue lvl))
                                 else slog_New (TextHandler (output st) (LevelValue lvl)))\<rparr>)"
  by (cases "mtx st") (simp_all add: storeLogger_def mtx_TryLock_def mtx_Unlock_def)

lemma WithJSONFormat_eq:
  "WithJSONFormat st =
     Inr (st\<lparr>handler := 0,
             globalLogger := slog_New (JSONHandler (output st) (LevelValue (levelVars st (logLevel st))))\<rparr>)"
  by (simp add: WithJSONFormat_def storeLogger_eq LevelVar_Level_def)

lemma WithTextFormat_eq:
  "WithTextFormat st =
     Inr (st\<lparr>handler := 1,
             globalLogger := slog_New (TextHandler (output st) (LevelValue (levelVars st (logLevel st))))\<rparr>)"
  by (simp add: WithTextFormat_def storeLogger_eq LevelVar_Level_def)

lemma isNotNilOrNilPointer_eq:
  "isNotNilOrNilPointer out =
     Inr (case out of NilWriter \<Rightarrow> False
          | Writer k isnil ident \<Rightarrow> \<not> ((k = Ptr \<or> k = Interface) \<and> isnil))"
  by (cases out) (auto simp: isNotNilOrNilPointer_def and_then_def)

lemma WithLogLevel_eq:
  "WithLogLevel name st =
     Inr (st\<lparr>levelVars := (levelVars st)
              (logLevel st :=
                 (if name = ''debug'' then LevelDebug
                  else if name = ''info'' then LevelInfo
                  else if name = ''error'' then LevelError
                  else LevelWarn))\<rparr>)"
  by (simp add: WithLogLevel_def LevelVar_Set_def map_index_def logLevelMap_def)

lemma WithOutput_eq:
  assumes "\<not> mtx st"
  shows "WithOutput out st =
     (let d = (if isNotNilOrNilPointer out = Inr True then out else os_Stdout) in
      Inr (st\<lparr>output := d,
              globalLogger :=
                (if handler st = 0
                 then slog_New (JSONHandler d (LevelValue (levelVars st (logLevel st))))
                 else slog_New (TextHandler d (LevelValue (levelVars st (logLevel st)))))\<rparr>))"
  using assms
  by (simp add: WithOutput_def mtx_Lock_def and_then_def isNotNilOrNilPointer_eq
      storeLogger_eq mtx_Unlock_def LevelVar_Level_def Let_def)

lemma Logger_log_eq:
  "Logger_log l now lvl msg args st =
     (if Logger_Enabled l lvl st
      then Inr (Handler_Handle (Logger_Handler l)
                  \<lparr>Time = now, Message = msg, Level = lvl, Attrs = attr_grammar args\<rparr> st)
      else Inr st)"
  by (simp add: Logger_log_def Record_Add_grammar and_then_def)

lemma init_default_state: "init now = Inr default_state"
  by (simp add: init_def default_state_def Let_def LevelVar_Set_def Logger_Debug_def
      Logger_log_eq Logger_Enabled_def Handler_Enabled_def slog_New_def
      LevelWarn_def LevelDebug_def)

text \<open>
  Whatever the format and the destination, the threshold of a logger that
  \<open>storeLogger\<close> built is the value the gate held at the rebuild.
\<close>

lemma rebuilt_logger_threshold:
  "on_ok (\<lambda>st'. Handler_opts_Level (Logger_Handler (globalLogger st'))) (WithJSONFormat st)
     = Inr (LevelValue (gate st))"
  "on_ok (\<lambda>st'. Handler_opts_Level (Logger_Handler (globalLogger st'))) (WithTextFormat st)
     = Inr (LevelValue (gate st))"
  "\<not> mtx st \<Longrightarrow>
   on_ok (\<lambda>st'. Handler_opts_Level (Logger_Handler (globalLogger st'))) (WithOutput out st)
     = Inr (LevelValue (gate st))"
  by (simp_all add: on_ok_def WithJSONFormat_eq WithTextFormat_eq WithOutput_eq Let_def
      slog_New_def gate_def LevelVar_Level_def)



text \<open>
  \<open>Configure\<close> runs a list of actions front to back: the actions of a second list start
  in the state the first list left, and an error of the first list is the result.
\<close>

lemma Configure_append:
  "Configure (xs @ ys) st = and_then (Configure xs st) (Configure ys)"
proof (induction xs arbitrary: st)
  case Nil
  show ?case by (simp add: and_then_def)
next
  case (Cons a xs)
  show ?case by (cases "a st") (simp_all add: and_then_def Cons.IH)
qed

lemma Configure_snoc:
  "Configure (xs @ [a]) st = and_then (Configure xs st) a"
proof -
  have "Configure [a] s = a s" for s
    by (cases "a s") (simp_all add: and_then_def)
  then have "Configure [a] = a" by (rule ext)
  then show ?thesis by (simp add: Configure_append)
qed




subsection \<open>The state at process start\<close>

text \<open>
  C9. At process start, before any configuration action, the severity gate is Warn, the
  format variant is the structured one (\<open>handler\<close> holds 0, JSON), the destination is
  standard output, and the global logger is a JSON handler built on that destination
  and on the gate itself (the \<open>LevelVar\<close> that \<open>logLevel\<close> points to). The mutex is
  free and the record \<open>init\<close> logs at level Debug is filtered out, so nothing has been
  written.
\<close>

theorem init_defaults:
  "\<exists>st. init now = Inr st
      \<and> gate st = LevelWarn
      \<and> handler st = 0
      \<and> output st = os_Stdout
      \<and> globalLogger st = slog_New (JSONHandler (output st) (LevelVarAt (logLevel st)))
      \<and> \<not> mtx st
      \<and> written st = []"
  by (simp add: init_default_state default_state_def gate_def LevelVar_Level_def)

subsection \<open>Setting the severity\<close>

text \<open>
  C4. For each of the strings "debug", "info", "warn" and "error", \<open>WithLogLevel\<close>
  sets the severity gate to the level of that name; for every other string, the empty
  string included, it sets the gate to Warn. It never signals an error, and it changes
  nothing but the gate.
\<close>

theorem WithLogLevel_sets_gate:
  "\<exists>st'. WithLogLevel name st = Inr st'
      \<and> gate st' =
          (if name = ''debug'' then LevelDebug
           else if name = ''info'' then LevelInfo
           else if name = ''warn'' then LevelWarn
           else if name = ''error'' then LevelError
           else LevelWarn)
      \<and> st' = st\<lparr>levelVars := (levelVars st)(logLevel st := gate st')\<rparr>"
  by (simp add: WithLogLevel_eq gate_def LevelVar_Level_def)

theorem WithLogLevel_sets_gate_witness:
  "\<exists>st'. WithLogLevel '''' default_state = Inr st' \<and> gate st' = LevelWarn"
  using WithLogLevel_sets_gate [of "''''" default_state] by auto

subsection \<open>Setting the destination\<close>

text \<open>
  C5. For every writer handed to \<open>WithOutput\<close>, called with the mutex free: when the
  writer is the nil interface, or a non-nil interface value holding a nil pointer or a
  nil interface, the destination afterwards is standard output; otherwise it is the
  writer handed in. No error is raised in either case, and the logger installed by the
  call writes to that destination.
\<close>

theorem WithOutput_destination:
  assumes "\<not> mtx st"
  shows "\<exists>st'. WithOutput out st = Inr st'
      \<and> output st' =
          (if out = NilWriter \<or> (\<exists>ident. out = Writer Ptr True ident)
               \<or> (\<exists>ident. out = Writer Interface True ident)
           then os_Stdout else out)
      \<and> Handler_w (Logger_Handler (globalLogger st')) = output st'"
proof (cases out)
  case NilWriter
  then show ?thesis using assms
    by (simp add: WithOutput_eq isNotNilOrNilPointer_eq Let_def slog_New_def)
next
  case (Writer k isnil ident)
  then show ?thesis using assms
    by (auto simp: WithOutput_eq isNotNilOrNilPointer_eq Let_def slog_New_def)
qed

theorem WithOutput_destination_witness:
  "\<not> mtx default_state
   \<and> (\<exists>st'. WithOutput (Writer Ptr True 7) default_state = Inr st' \<and> output st' = os_Stdout)
   \<and> (\<exists>st'. WithOutput (Writer Ptr False 7) default_state = Inr st'
          \<and> output st' = Writer Ptr False 7)"
proof -
  have h: "\<not> mtx default_state" by (simp add: default_state_def)
  show ?thesis
    using h WithOutput_destination [OF h, of "Writer Ptr True 7"]
      WithOutput_destination [OF h, of "Writer Ptr False 7"]
    by auto
qed

subsection \<open>The attribute grammar\<close>

text \<open>
  C6. For every argument list handed to \<open>Debug\<close>, \<open>Info\<close>, \<open>Warn\<close> or \<open>Error\<close>, the
  attributes of the record are those of the left-to-right grammar: an \<open>Attr\<close> is used
  as it is and takes one position; a string that is not the last argument is the key of
  the argument after it and takes two positions; any other argument (a string in last
  position, or a value that is neither a string nor an \<open>Attr\<close>) becomes a value under
  the key "!BADKEY" and takes one position. The loop of \<open>Record.Add\<close> never fails, so
  each emit function returns: with the record written when the logger is enabled at the
  level, with the state unchanged otherwise. The arguments ("k", "v", "lonely") give
  k: v followed by !BADKEY: lonely, and an \<open>Attr\<close> followed by a key and a value gives
  both in call order.
\<close>

theorem attribute_grammar:
  "Record_Add [] args = Inr (attr_grammar args)
   \<and> Debug now msg args st =
       (if Logger_Enabled (globalLogger st) LevelDebug st
        then Inr (Handler_Handle (Logger_Handler (globalLogger st))
                    \<lparr>Time = now, Message = msg, Level = LevelDebug, Attrs = attr_grammar args\<rparr> st)
        else Inr st)
   \<and> Info now msg args st =
       (if Logger_Enabled (globalLogger st) LevelInfo st
        then Inr (Handler_Handle (Logger_Handler (globalLogger st))
                    \<lparr>Time = now, Message = msg, Level = LevelInfo, Attrs = attr_grammar args\<rparr> st)
        else Inr st)
   \<and> Warn now msg args st =
       (if Logger_Enabled (globalLogger st) LevelWarn st
        then Inr (Handler_Handle (Logger_Handler (globalLogger st))
                    \<lparr>Time = now, Message = msg, Level = LevelWarn, Attrs = attr_grammar args\<rparr> st)
        else Inr st)
   \<and> Error now msg args st =
       (if Logger_Enabled (globalLogger st) LevelError st
        then Inr (Handler_Handle (Logger_Handler (globalLogger st))
                    \<lparr>Time = now, Message = msg, Level = LevelError, Attrs = attr_grammar args\<rparr> st)
        else Inr st)
   \<and> attr_grammar [StringArg ''k'', StringArg ''v'', StringArg ''lonely'']
       = [(''k'', StringArg ''v''), (''!BADKEY'', StringArg ''lonely'')]
   \<and> attr_grammar [AttrArg ''a'' (OtherArg 1), StringArg ''k'', StringArg ''v'']
       = [(''a'', OtherArg 1), (''k'', StringArg ''v'')]"
proof -
  have "Record_Add [] args = Inr (attr_grammar args)"
    using Record_Add_grammar [of "[]" args] by simp
  moreover have "Debug now msg args st =
       (if Logger_Enabled (globalLogger st) LevelDebug st
        then Inr (Handler_Handle (Logger_Handler (globalLogger st))
                    \<lparr>Time = now, Message = msg, Level = LevelDebug, Attrs = attr_grammar args\<rparr> st)
        else Inr st)"
    by (simp add: Debug_def Logger_Debug_def Logger_log_eq)
  moreover have "Info now msg args st =
       (if Logger_Enabled (globalLogger st) LevelInfo st
        then Inr (Handler_Handle (Logger_Handler (globalLogger st))
                    \<lparr>Time = now, Message = msg, Level = LevelInfo, Attrs = attr_grammar args\<rparr> st)
        else Inr st)"
    by (simp add: Info_def Logger_Info_def Logger_log_eq)
  moreover have "Warn now msg args st =
       (if Logger_Enabled (globalLogger st) LevelWarn st
        then Inr (Handler_Handle (Logger_Handler (globalLogger st))
                    \<lparr>Time = now, Message = msg, Level = LevelWarn, Attrs = attr_grammar args\<rparr> st)
        else Inr st)"
    by (simp add: Warn_def Logger_Warn_def Logger_log_eq)
  moreover have "Error now msg args st =
       (if Logger_Enabled (globalLogger st) LevelError st
        then Inr (Handler_Handle (Logger_Handler (globalLogger st))
                    \<lparr>Time = now, Message = msg, Level = LevelError, Attrs = attr_grammar args\<rparr> st)
        else Inr st)"
    by (simp add: Error_def Logger_Error_def Logger_log_eq)
  moreover have "attr_grammar [StringArg ''k'', StringArg ''v'', StringArg ''lonely'']
       = [(''k'', StringArg ''v''), (''!BADKEY'', StringArg ''lonely'')]"
    by (simp add: badKey_def)
  moreover have "attr_grammar [AttrArg ''a'' (OtherArg 1), StringArg ''k'', StringArg ''v'']
       = [(''a'', OtherArg 1), (''k'', StringArg ''v'')]"
    by simp
  ultimately show ?thesis by blast
qed

theorem attribute_grammar_witness:
  "Record_Add [] [StringArg ''k'', StringArg ''v'', StringArg ''lonely'']
     = Inr [(''k'', StringArg ''v''), (''!BADKEY'', StringArg ''lonely'')]"
  using attribute_grammar
    [of "[StringArg ''k'', StringArg ''v'', StringArg ''lonely'']" 0 "[]" default_state]
  by (simp add: badKey_def)

subsection \<open>Two format actions\<close>

text \<open>
  C10. When \<open>Configure\<close> is given two format actions, in any of the four combinations,
  the state it leaves is the one the second action alone leaves, and no error is
  raised: \<open>WithTextFormat\<close> followed by \<open>WithJSONFormat\<close> leaves \<open>handler\<close> at 0 and a
  JSON handler installed, as \<open>WithJSONFormat\<close> alone does.
\<close>

theorem last_format_wins:
  "Configure [WithTextFormat, WithJSONFormat] st = Configure [WithJSONFormat] st
   \<and> Configure [WithJSONFormat, WithTextFormat] st = Configure [WithTextFormat] st
   \<and> Configure [WithJSONFormat, WithJSONFormat] st = Configure [WithJSONFormat] st
   \<and> Configure [WithTextFormat, WithTextFormat] st = Configure [WithTextFormat] st
   \<and> Configure [WithJSONFormat] st =
       Inr (st\<lparr>handler := 0,
               globalLogger := slog_New (JSONHandler (output st) (LevelValue (gate st)))\<rparr>)
   \<and> Configure [WithTextFormat] st =
       Inr (st\<lparr>handler := 1,
               globalLogger := slog_New (TextHandler (output st) (LevelValue (gate st)))\<rparr>)"
  by (simp add: and_then_def WithJSONFormat_eq WithTextFormat_eq gate_def LevelVar_Level_def)

theorem last_format_wins_witness:
  "Configure [WithTextFormat, WithJSONFormat] default_state =
     Inr (default_state\<lparr>globalLogger :=
            slog_New (JSONHandler os_Stdout (LevelValue LevelWarn))\<rparr>)"
  using last_format_wins [of default_state]
  by (simp add: default_state_def gate_def LevelVar_Level_def)

subsection \<open>Actions applied in order\<close>

text \<open>
  C8. \<open>Configure\<close> applies its actions in the order the caller gave, each in the state
  the ones before it left: for every list of actions and every further action, running
  the list with the action appended is running the list and then the action (and the
  same for a second list appended; three actions are the first, then the second, then
  the third), and an error stops the run. The order shows in the result: "debug" then
  "info" leaves the gate at Info, "info" then "debug" leaves it at Debug. For every
  writer \<open>D\<close>, \<open>Configure\<close> with \<open>WithTextFormat\<close>, then \<open>WithLogLevel "info"\<close>, then
  \<open>WithOutput D\<close>, started with the mutex free, ends with \<open>handler\<close> at 1, the gate at
  Info, and a text handler at threshold Info installed on the destination, which is
  \<open>D\<close> when \<open>D\<close> is a valid writer (and standard output otherwise, as C5 has it);
  \<open>Error "boom"\<close> then writes to that destination exactly one record, in the
  line-oriented text encoding, with level Error and the message "boom".
\<close>

theorem Configure_in_order:
  "Configure (options @ [a]) st = and_then (Configure options st) a
   \<and> Configure (options @ rest) st = and_then (Configure options st) (Configure rest)
   \<and> Configure [a, b, c] st = and_then (and_then (a st) b) c
   \<and> on_ok gate (Configure [WithLogLevel ''debug'', WithLogLevel ''info''] st) = Inr LevelInfo
   \<and> on_ok gate (Configure [WithLogLevel ''info'', WithLogLevel ''debug''] st) = Inr LevelDebug
   \<and> (\<not> mtx st \<longrightarrow>
        (\<exists>st1 st2 dest.
          Configure [WithTextFormat, WithLogLevel ''info'', WithOutput D] st = Inr st1
          \<and> handler st1 = 1 \<and> gate st1 = LevelInfo \<and> output st1 = dest
          \<and> globalLogger st1 = slog_New (TextHandler dest (LevelValue LevelInfo))
          \<and> dest = (if isNotNilOrNilPointer D = Inr True then D else os_Stdout)
          \<and> Error now ''boom'' [] st1 = Inr st2
          \<and> written st2 = written st @
               [(dest, TextLine \<lparr>Time = now, Message = ''boom'', Level = LevelError, Attrs = []\<rparr>)]
          \<and> written_to dest st2 = written_to dest st @
               [TextLine \<lparr>Time = now, Message = ''boom'', Level = LevelError, Attrs = []\<rparr>]))"
proof -
  have 1: "Configure (options @ [a]) st = and_then (Configure options st) a"
    by (rule Configure_snoc)
  have 2: "Configure (options @ rest) st = and_then (Configure options st) (Configure rest)"
    by (rule Configure_append)
  have 3: "Configure [a, b, c] st = and_then (and_then (a st) b) c"
    by (cases "a st"; cases "b (projr (a st))") (auto simp: and_then_def split: sum.splits)
  have 4: "on_ok gate (Configure [WithLogLevel ''debug'', WithLogLevel ''info''] st) = Inr LevelInfo"
    by (simp add: and_then_def on_ok_def WithLogLevel_eq gate_def LevelVar_Level_def)
  have 5: "on_ok gate (Configure [WithLogLevel ''info'', WithLogLevel ''debug''] st) = Inr LevelDebug"
    by (simp add: and_then_def on_ok_def WithLogLevel_eq gate_def LevelVar_Level_def)
  have 6: "\<exists>st1 st2 dest.
          Configure [WithTextFormat, WithLogLevel ''info'', WithOutput D] st = Inr st1
          \<and> handler st1 = 1 \<and> gate st1 = LevelInfo \<and> output st1 = dest
          \<and> globalLogger st1 = slog_New (TextHandler dest (LevelValue LevelInfo))
          \<and> dest = (if isNotNilOrNilPointer D = Inr True then D else os_Stdout)
          \<and> Error now ''boom'' [] st1 = Inr st2
          \<and> written st2 = written st @
               [(dest, TextLine \<lparr>Time = now, Message = ''boom'', Level = LevelError, Attrs = []\<rparr>)]
          \<and> written_to dest st2 = written_to dest st @
               [TextLine \<lparr>Time = now, Message = ''boom'', Level = LevelError, Attrs = []\<rparr>]"
    if "\<not> mtx st"
    using that
    by (simp add: and_then_def WithTextFormat_eq WithLogLevel_eq WithOutput_eq Let_def
      gate_def LevelVar_Level_def Error_def Logger_Error_def Logger_log_eq
      Logger_Enabled_def Handler_Enabled_def slog_New_def Handler_Handle_def written_to_def
      LevelInfo_def LevelError_def)
  from 1 2 3 4 5 6 show ?thesis by blast
qed

theorem Configure_in_order_witness:
  "\<not> mtx default_state
   \<and> (\<exists>st1 st2.
      Configure [WithTextFormat, WithLogLevel ''info'', WithOutput (Writer Ptr False 9)]
        default_state = Inr st1
      \<and> Error 3 ''boom'' [] st1 = Inr st2
      \<and> written_to (Writer Ptr False 9) st2 =
           [TextLine \<lparr>Time = 3, Message = ''boom'', Level = LevelError, Attrs = []\<rparr>])"
proof -
  have h: "\<not> mtx default_state" by (simp add: default_state_def)
  have w: "written_to (Writer Ptr False 9) default_state = []"
    by (simp add: written_to_def default_state_def)
  have v: "isNotNilOrNilPointer (Writer Ptr False 9) = Inr True"
    by (simp add: isNotNilOrNilPointer_eq)
  note t = Configure_in_order [where st = default_state and D = "Writer Ptr False 9"
      and now = 3 and options = "[]" and rest = "[]" and a = WithTextFormat
      and b = WithTextFormat and c = WithTextFormat]
  from t h obtain st1 st2 dest where
    s: "Configure [WithTextFormat, WithLogLevel ''info'', WithOutput (Writer Ptr False 9)]
          default_state = Inr st1"
      "dest = (if isNotNilOrNilPointer (Writer Ptr False 9) = Inr True
               then Writer Ptr False 9 else os_Stdout)"
      "Error 3 ''boom'' [] st1 = Inr st2"
      "written_to dest st2 = written_to dest default_state @
         [TextLine \<lparr>Time = 3, Message = ''boom'', Level = LevelError, Attrs = []\<rparr>]"
    by blast
  from s(2) v have "dest = Writer Ptr False 9" by simp
  with s w h show ?thesis by auto
qed

subsection \<open>The threshold of a rebuilt logger\<close>

text \<open>
  C1 says that the emit functions always filter by the current value of the severity
  gate, also after a format or destination action has rebuilt the logger. The code does
  not do that: \<open>storeLogger\<close> builds the handler on the \<open>Level\<close> value its caller read
  from the gate, so the threshold of a rebuilt logger stays what the gate held at the
  rebuild. From process start, \<open>WithTextFormat\<close> followed by \<open>WithLogLevel "debug"\<close>
  leaves the gate at Debug, and \<open>Debug\<close> writes nothing. The logger \<open>init\<close> installs is
  built on the \<open>LevelVar\<close> itself: without the format action the same call writes its
  record.
\<close>

theorem rebuilt_logger_ignores_gate:
  "on_ok gate (and_then (init 0) (Configure [WithTextFormat, WithLogLevel ''debug'']))
     = Inr LevelDebug
   \<and> on_ok written
       (and_then (and_then (init 0) (Configure [WithTextFormat, WithLogLevel ''debug'']))
          (Debug 1 ''x'' []))
     = Inr []
   \<and> on_ok written
       (and_then (and_then (init 0) (Configure [WithLogLevel ''debug''])) (Debug 1 ''x'' []))
     = Inr [(os_Stdout,
             JSONLine \<lparr>Time = 1, Message = ''x'', Level = LevelDebug, Attrs = []\<rparr>)]"
  by (simp add: init_default_state default_state_def and_then_def on_ok_def
      WithTextFormat_eq WithLogLevel_eq gate_def LevelVar_Level_def
      Debug_def Logger_Debug_def Logger_log_eq Logger_Enabled_def Handler_Enabled_def
      Handler_Handle_def slog_New_def LevelDebug_def LevelWarn_def)

text \<open>
  C7 says that with the severity gate at Info, \<open>Info\<close> writes its record, and that in
  general an emit function writes exactly when its level is at or above the current
  gate. From process start, \<open>Configure\<close> with \<open>WithJSONFormat\<close> and
  \<open>WithLogLevel "info"\<close> (the first example of the README) leaves the gate at Info, and
  \<open>Info\<close> writes nothing: the logger rebuilt by \<open>WithJSONFormat\<close> keeps the threshold
  Warn.
\<close>

theorem info_dropped_at_gate_info:
  "on_ok gate (and_then (init 0) (Configure [WithJSONFormat, WithLogLevel ''info'']))
     = Inr LevelInfo
   \<and> on_ok written
       (and_then (and_then (init 0) (Configure [WithJSONFormat, WithLogLevel ''info'']))
          (Info 1 ''Starting http server'' []))
     = Inr []"
  by (simp add: init_default_state default_state_def and_then_def on_ok_def
      WithJSONFormat_eq WithLogLevel_eq gate_def LevelVar_Level_def
      Info_def Logger_Info_def Logger_log_eq Logger_Enabled_def Handler_Enabled_def
      Handler_Handle_def slog_New_def LevelInfo_def LevelWarn_def)

subsection \<open>A copied logger\<close>




end
